theory Spec2Isabelle
  imports Main "HOL-Library.AList"
begin

section \<open>Data model of mcp-shell-server.js\<close>

text \<open>
  The server keeps one module-level \<^verbatim>\<open>const sessions = new Map()\<close>. A JavaScript Map
  iterates in insertion order, \<^verbatim>\<open>set\<close> on a present key replaces the value in place and
  on an absent key appends, \<^verbatim>\<open>delete\<close> removes the entry: this is an association list
  with \<open>map_of\<close>, \<open>AList.update\<close> and \<open>AList.delete\<close>.

  Everything the handlers obtain from outside the module is a parameter of the model:
  the result of \<^verbatim>\<open>randomUUID()\<close>, of \<^verbatim>\<open>new Date().toISOString()\<close>, of
  \<^verbatim>\<open>os.platform()\<close>, \<^verbatim>\<open>process.cwd()\<close>, \<^verbatim>\<open>process.env\<close>, and what node-pty's
  \<^verbatim>\<open>spawn\<close>, \<^verbatim>\<open>kill\<close> and \<^verbatim>\<open>write\<close> do (return, or throw an exception, carried
  as its \<^verbatim>\<open>String(e)\<close> rendering). Numbers of the input schema (\<^verbatim>\<open>z.number()\<close>) are
  taken at their integral values.
\<close>

text \<open>An element of a session's output array: \<^verbatim>\<open>{type:'stdout', data, timestamp}\<close> or
  \<^verbatim>\<open>{type:'exit', exitCode, signal, timestamp}\<close>.\<close>

datatype event =
    Stdout string string
  | ExitMarker int "int option" string

text \<open>The handle \<^verbatim>\<open>p\<close> returned by \<^verbatim>\<open>pty.spawn\<close>; it carries \<^verbatim>\<open>p.pid\<close>.\<close>

datatype pty = Pty nat

fun pty_pid :: "pty \<Rightarrow> nat" where
  "pty_pid (Pty n) = n"

record session =
  pid :: nat
  pty :: pty
  cwd :: string
  cmd :: string
  args :: "string list"
  cols :: int
  rows :: int
  startedAt :: string
  outputBuffer :: "event list"
  exitCode :: "int option"
  exitSignal :: "int option"
  isRunning :: bool

text \<open>Calls the handlers make on a PTY handle, in the order they are made (a call is
  recorded when it is made, whether it returns or throws).\<close>

datatype pty_call = Kill pty | Write pty string

record server =
  sessions :: "(string \<times> session) list"
  pty_calls :: "pty_call list"

definition init :: server where
  "init = \<lparr>sessions = [], pty_calls = []\<rparr>"

text \<open>The structured output of a tool, one constructor per object literal of the source.\<close>

record session_output =
  out_sessionId :: string
  out_isRunning :: bool
  out_exitCode :: "int option"
  out_exitSignal :: "int option"
  out_output :: "event list"
  totalLines :: nat

record session_summary =
  sum_sessionId :: string
  sum_pid :: nat
  sum_cmd :: string
  sum_args :: "string list"
  sum_cwd :: string
  sum_isRunning :: bool
  sum_exitCode :: "int option"
  sum_startedAt :: string
  outputLines :: nat

datatype reply =
    Started string nat
  | Written
  | Output session_output
  | Sessions "session_summary list"
  | Killed
  | Cleaned nat
  | Failure string

text \<open>A handler either returns its structured output or lets an exception escape.\<close>

datatype outcome = Returns reply | Throws string

section \<open>startProcess\<close>

record host =
  platform :: string
  process_cwd :: string
  process_env :: "string \<rightharpoonup> string"

record start_args =
  a_cmd :: string
  a_args :: "string list option"
  a_cwd :: "string option"
  a_env :: "(string \<rightharpoonup> string) option"
  a_cols :: "int option"
  a_rows :: "int option"
  a_shellOnWindows :: "bool option"

text \<open>The arguments of the one call \<^verbatim>\<open>pty.spawn(exe, argv, {name, cols, rows, cwd, env})\<close>.\<close>

record spawn_call =
  sp_file :: string
  sp_argv :: "string list"
  sp_name :: string
  sp_cols :: int
  sp_rows :: int
  sp_cwd :: string
  sp_env :: "string \<rightharpoonup> string"

text \<open>\<^verbatim>\<open>args.join(" ")\<close>\<close>

fun join_sp :: "string list \<Rightarrow> string" where
  "join_sp [] = []"
| "join_sp [x] = x"
| "join_sp (x # y # ys) = x @ '' '' @ join_sp (y # ys)"

text \<open>Object spread \<^verbatim>\<open>{ ...a, ...b }\<close>: the keys of both, \<^verbatim>\<open>b\<close> written last.\<close>

definition spread :: "(string \<rightharpoonup> string) \<Rightarrow> (string \<rightharpoonup> string) \<Rightarrow> (string \<rightharpoonup> string)" where
  "spread a b = (\<lambda>k. case b k of Some v \<Rightarrow> Some v | None \<Rightarrow> a k)"

text \<open>Lines 38 to 51: defaults of the destructured parameters, the Windows shell route,
  and the options object.\<close>

definition spawn_call_of :: "host \<Rightarrow> start_args \<Rightarrow> spawn_call" where
  "spawn_call_of h a =
    (let args0 = (case a_args a of None \<Rightarrow> [] | Some xs \<Rightarrow> xs);
         cwd0 = (case a_cwd a of None \<Rightarrow> process_cwd h | Some d \<Rightarrow> d);
         env0 = (case a_env a of None \<Rightarrow> Map.empty | Some e \<Rightarrow> e);
         cols0 = (case a_cols a of None \<Rightarrow> 120 | Some c \<Rightarrow> c);
         rows0 = (case a_rows a of None \<Rightarrow> 30 | Some r \<Rightarrow> r);
         shellOnWindows = (case a_shellOnWindows a of None \<Rightarrow> False | Some b \<Rightarrow> b);
         isWin = (platform h = ''win32'');
         exe = (if isWin \<and> shellOnWindows then ''powershell.exe'' else a_cmd a);
         argv = (if isWin \<and> shellOnWindows
                 then [''-NoLogo'', ''-Command'', a_cmd a @ '' '' @ join_sp args0]
                 else args0)
     in \<lparr>sp_file = exe, sp_argv = argv, sp_name = ''xterm-color'',
         sp_cols = cols0, sp_rows = rows0, sp_cwd = cwd0,
         sp_env = spread (process_env h) env0\<rparr>)"

text \<open>\<^verbatim>\<open>pty_spawn\<close> is node-pty's \<^verbatim>\<open>spawn\<close>: \<open>Inr p\<close> when it returns the handle,
  \<open>Inl e\<close> when it throws. The call is not inside a \<^verbatim>\<open>try\<close>, so the exception leaves
  the handler before \<^verbatim>\<open>sessions.set\<close> is reached.\<close>

definition startProcess ::
  "host \<Rightarrow> (spawn_call \<Rightarrow> string + pty) \<Rightarrow> string \<Rightarrow> string \<Rightarrow> start_args \<Rightarrow> server
     \<Rightarrow> outcome \<times> server" where
  "startProcess h pty_spawn uuid now a st =
    (let c = spawn_call_of h a in
     case pty_spawn c of
       Inl e \<Rightarrow> (Throws e, st)
     | Inr p \<Rightarrow>
         (let sessionId = uuid;
              rec = \<lparr>pid = pty_pid p, pty = p, cwd = sp_cwd c, cmd = sp_file c,
                     args = sp_argv c, cols = sp_cols c, rows = sp_rows c,
                     startedAt = now, outputBuffer = [], exitCode = None, exitSignal = None,
                     isRunning = True\<rparr>
          in (Returns (Started sessionId (pty_pid p)),
              st\<lparr>sessions := AList.update sessionId rec (sessions st)\<rparr>)))"

section \<open>The callbacks registered on the handle\<close>

definition maxBufferSize :: nat where
  "maxBufferSize = 10000"

text \<open>
  \<^verbatim>\<open>outputBuffer\<close> of the closure and \<^verbatim>\<open>session.output\<close> are the same array
  (\<^verbatim>\<open>output: outputBuffer\<close>), and no statement assigns \<^verbatim>\<open>session.output\<close> again, so the
  array is a field of the record. Once the record has been deleted from the Map the array
  is reachable by no handler; a push on it then leaves the registry as it is.
  \<^verbatim>\<open>randomUUID()\<close> is taken to return no id twice, so the array of the closure
  registered for an id is the array of the record under that id.
  \<^verbatim>\<open>shift()\<close> removes the first element: \<open>tl\<close>.
\<close>

definition onData :: "string \<Rightarrow> string \<Rightarrow> string \<Rightarrow> server \<Rightarrow> server" where
  "onData sessionId d now st =
    (case map_of (sessions st) sessionId of
       None \<Rightarrow> st
     | Some s \<Rightarrow>
         (let pushed = outputBuffer s @ [Stdout d now];
              kept = (if length pushed > maxBufferSize then tl pushed else pushed)
          in st\<lparr>sessions := AList.update sessionId (s\<lparr>outputBuffer := kept\<rparr>) (sessions st)\<rparr>))"

definition onExit :: "string \<Rightarrow> int \<Rightarrow> int option \<Rightarrow> string \<Rightarrow> server \<Rightarrow> server" where
  "onExit sessionId code signal now st =
    (case map_of (sessions st) sessionId of
       None \<Rightarrow> st
     | Some s \<Rightarrow>
         st\<lparr>sessions := AList.update sessionId
               (s\<lparr>isRunning := False, exitCode := Some code, exitSignal := signal,
                  outputBuffer := outputBuffer s @ [ExitMarker code signal now]\<rparr>)
               (sessions st)\<rparr>)"

section \<open>writeInput, getSessionOutput, listSessions\<close>

definition writeInput ::
  "(pty \<Rightarrow> string \<Rightarrow> string option) \<Rightarrow> string \<Rightarrow> string \<Rightarrow> server \<Rightarrow> outcome \<times> server" where
  "writeInput pty_write sessionId d st =
    (case map_of (sessions st) sessionId of
       None \<Rightarrow> (Returns (Failure ''Session not found''), st)
     | Some s \<Rightarrow>
         (let st' = st\<lparr>pty_calls := pty_calls st @ [Write (pty s) d]\<rparr> in
          case pty_write (pty s) d of
            Some e \<Rightarrow> (Throws e, st')
          | None \<Rightarrow> (Returns Written, st')))"



definition listSessions :: "server \<Rightarrow> outcome" where
  "listSessions st =
    Returns (Sessions (map (\<lambda>(sid, s).
      \<lparr>sum_sessionId = sid, sum_pid = pid s, sum_cmd = cmd s, sum_args = args s,
       sum_cwd = cwd s, sum_isRunning = isRunning s, sum_exitCode = exitCode s,
       sum_startedAt = startedAt s, outputLines = length (outputBuffer s)\<rparr>) (sessions st)))"

section \<open>stopProcess and cleanupSessions\<close>

text \<open>\<^verbatim>\<open>pty_kill\<close> is the handle's \<^verbatim>\<open>kill()\<close>: \<open>None\<close> when it returns, \<open>Some e\<close>
  when it throws. The assignment \<^verbatim>\<open>s.isRunning = false\<close> follows the call inside the
  \<^verbatim>\<open>try\<close> block.\<close>

definition stopProcess :: "(pty \<Rightarrow> string option) \<Rightarrow> string \<Rightarrow> server \<Rightarrow> outcome \<times> server" where
  "stopProcess pty_kill sessionId st =
    (case map_of (sessions st) sessionId of
       None \<Rightarrow> (Returns (Failure ''Session not found''), st)
     | Some s \<Rightarrow>
         (let st' = st\<lparr>pty_calls := pty_calls st @ [Kill (pty s)]\<rparr> in
          case pty_kill (pty s) of
            None \<Rightarrow>
              (Returns Killed,
               st'\<lparr>sessions := AList.update sessionId (s\<lparr>isRunning := False\<rparr>) (sessions st')\<rparr>)
          | Some e \<Rightarrow> (Returns (Failure e), st')))"

text \<open>The loop of the clean-all branch, over the entries in insertion order.\<close>

fun cleanup_loop ::
  "(string \<times> session) list \<Rightarrow> (string \<times> session) list \<times> nat \<Rightarrow> (string \<times> session) list \<times> nat" where
  "cleanup_loop [] acc = acc"
| "cleanup_loop ((sid, s) # rest) (m, cleaned) =
     (if \<not> isRunning s then cleanup_loop rest (AList.delete sid m, cleaned + 1)
      else cleanup_loop rest (m, cleaned))"

text \<open>\<^verbatim>\<open>if (sessionId)\<close> is JavaScript truthiness: \<^verbatim>\<open>undefined\<close> and the empty string
  both take the \<^verbatim>\<open>else\<close> branch.\<close>

definition truthy :: "string option \<Rightarrow> bool" where
  "truthy x = (case x of None \<Rightarrow> False | Some s \<Rightarrow> s \<noteq> [])"

definition cleanupSessions :: "string option \<Rightarrow> server \<Rightarrow> outcome \<times> server" where
  "cleanupSessions sessionId st =
    (if truthy sessionId then
       (case map_of (sessions st) (the sessionId) of
          None \<Rightarrow> (Returns (Failure ''Session not found''), st)
        | Some s \<Rightarrow>
            if isRunning s then (Returns (Failure ''Session is still running''), st)
            else (Returns (Cleaned 1), st\<lparr>sessions := AList.delete (the sessionId) (sessions st)\<rparr>))
     else
       (let (m, cleaned) = cleanup_loop (sessions st) (sessions st, 0)
        in (Returns (Cleaned cleaned), st\<lparr>sessions := m\<rparr>)))"

section \<open>Runs of the server\<close>

text \<open>What a PTY handle delivers to the two callbacks registered on it: a chunk of output
  with the time it is stamped with, or the exit notification \<^verbatim>\<open>{exitCode, signal}\<close>.\<close>

datatype callback = Data string string | Exited int "int option" string

fun fire :: "string \<Rightarrow> server \<Rightarrow> callback \<Rightarrow> server" where
  "fire sessionId st (Data d now) = onData sessionId d now st"
| "fire sessionId st (Exited code signal now) = onExit sessionId code signal now st"

definition fire_all :: "string \<Rightarrow> callback list \<Rightarrow> server \<Rightarrow> server" where
  "fire_all sessionId cbs st = foldl (fire sessionId) st cbs"


text \<open>Node runs one handler or callback at a time, to completion; a run of the server is
  a sequence of such steps from the empty registry.\<close>

datatype call =
    StartProcess host "spawn_call \<Rightarrow> string + pty" string string start_args
  | PtyEvent string callback
  | WriteInput "pty \<Rightarrow> string \<Rightarrow> string option" string string
  | GetSessionOutput string "int option"
  | ListSessions
  | StopProcess "pty \<Rightarrow> string option" string
  | CleanupSessions "string option"

fun step :: "server \<Rightarrow> call \<Rightarrow> server" where
  "step st (StartProcess h pty_spawn uuid now a) = snd (startProcess h pty_spawn uuid now a st)"
| "step st (PtyEvent sessionId cb) = fire sessionId st cb"
| "step st (WriteInput pty_write sessionId d) = snd (writeInput pty_write sessionId d st)"
| "step st (GetSessionOutput sessionId fromIndex) = st"
| "step st ListSessions = st"
| "step st (StopProcess pty_kill sessionId) = snd (stopProcess pty_kill sessionId st)"
| "step st (CleanupSessions sessionId) = snd (cleanupSessions sessionId st)"

definition run :: "call list \<Rightarrow> server" where
  "run cs = foldl step init cs"

text \<open>The array of a registered session.\<close>

definition captured :: "string \<Rightarrow> server \<Rightarrow> event list" where
  "captured sessionId st =
    (case map_of (sessions st) sessionId of None \<Rightarrow> [] | Some s \<Rightarrow> outputBuffer s)"


section \<open>Wait-mode start\<close>






section \<open>The lifecycle invariant\<close>

text \<open>A registered session that is marked running has no exit field set.\<close>

definition exit_inv :: "server \<Rightarrow> bool" where
  "exit_inv st = (\<forall>sid s. map_of (sessions st) sid = Some s \<longrightarrow> isRunning s
      \<longrightarrow> exitCode s = None \<and> exitSignal s = None)"

section \<open>Concrete inputs\<close>

definition demo_host :: host where
  "demo_host = \<lparr>platform = ''linux'', process_cwd = ''/srv'',
                 process_env = [''PATH'' \<mapsto> ''/usr/bin'', ''TERM'' \<mapsto> ''xterm'']\<rparr>"

definition demo_args :: start_args where
  "demo_args = \<lparr>a_cmd = ''cat'', a_args = None, a_cwd = None,
                 a_env = Some [''TERM'' \<mapsto> ''dumb''], a_cols = None, a_rows = None,
                 a_shellOnWindows = None\<rparr>"

definition spawn_ok :: "spawn_call \<Rightarrow> string + pty" where
  "spawn_ok c = Inr (Pty 4242)"

definition spawn_fails :: "spawn_call \<Rightarrow> string + pty" where
  "spawn_fails c = Inl ''Error: chdir() failed''"

definition kill_ok :: "pty \<Rightarrow> string option" where
  "kill_ok p = None"

definition kill_throws :: "pty \<Rightarrow> string option" where
  "kill_throws p = Some ''Error: kill ESRCH''"

definition demo_session :: session where
  "demo_session = \<lparr>pid = 4242, pty = Pty 4242, cwd = ''/srv'', cmd = ''cat'', args = [],
                    cols = 120, rows = 30, startedAt = ''t0'', outputBuffer = [],
                    exitCode = None, exitSignal = None, isRunning = True\<rparr>"

text \<open>The registry after one successful \<^verbatim>\<open>startProcess\<close> of \<open>demo_args\<close>.\<close>

definition demo_server :: server where
  "demo_server = \<lparr>sessions = [(''s1'', demo_session)], pty_calls = []\<rparr>"


text \<open>A session whose child has exited with code 0.\<close>

definition finished_server :: server where
  "finished_server =
     \<lparr>sessions = [(''s1'', demo_session\<lparr>outputBuffer := [ExitMarker 0 (Some 0) ''t1''],
         exitCode := Some 0, exitSignal := Some 0, isRunning := False\<rparr>)],
      pty_calls = []\<rparr>"

section \<open>Start: the spawn call\<close>

text \<open>
  Claim C5. When \<^verbatim>\<open>pty.spawn\<close> throws, the claim has the start operation catch the
  failure and return an error value. The handler has no \<^verbatim>\<open>try\<close> around the call
  (\<^verbatim>\<open>stopProcess\<close> has one around \<^verbatim>\<open>kill\<close>): at a spawn that throws, the exception
  leaves the handler, no reply is returned, and the registry is as it was.
\<close>

theorem startProcess_spawn_throws:
  "startProcess demo_host spawn_fails ''s1'' ''t0'' demo_args init
     = (Throws ''Error: chdir() failed'', init)"
  by (simp add: startProcess_def spawn_fails_def)



section \<open>Stop\<close>

text \<open>
  Claim C10. When \<^verbatim>\<open>kill()\<close> throws inside \<^verbatim>\<open>stopProcess\<close>, the handler returns
  \<^verbatim>\<open>{ok:false, error:String(e)}\<close> and the registry is unchanged: the record is still
  registered under its id, with every field as before.
\<close>

theorem stopProcess_kill_throws_unchanged:
  assumes "map_of (sessions st) sessionId = Some s" and "pty_kill (pty s) = Some e"
  shows "fst (stopProcess pty_kill sessionId st) = Returns (Failure e)
       \<and> sessions (snd (stopProcess pty_kill sessionId st)) = sessions st
       \<and> map_of (sessions (snd (stopProcess pty_kill sessionId st))) sessionId = Some s"
  using assms by (simp add: stopProcess_def)

theorem stopProcess_kill_throws_unchanged_witness:
  "map_of (sessions demo_server) ''s1'' = Some demo_session
   \<and> kill_throws (pty demo_session) = Some ''Error: kill ESRCH''
   \<and> fst (stopProcess kill_throws ''s1'' demo_server) = Returns (Failure ''Error: kill ESRCH'')
   \<and> sessions (snd (stopProcess kill_throws ''s1'' demo_server)) = sessions demo_server
   \<and> map_of (sessions (snd (stopProcess kill_throws ''s1'' demo_server))) ''s1'' = Some demo_session"
proof -
  have h1: "map_of (sessions demo_server) ''s1'' = Some demo_session"
    by (simp add: demo_server_def)
  have h2: "kill_throws (pty demo_session) = Some ''Error: kill ESRCH''"
    by (simp add: kill_throws_def)
  from stopProcess_kill_throws_unchanged [where st = demo_server and sessionId = "''s1''"
      and s = demo_session and pty_kill = kill_throws and e = "''Error: kill ESRCH''"] h1 h2
  show ?thesis by simp
qed

text \<open>
  Claim C3. The claim has \<^verbatim>\<open>stopProcess\<close> leave \<^verbatim>\<open>isRunning\<close> to the exit callback.
  The handler assigns \<^verbatim>\<open>s.isRunning = false\<close> itself, right after \<^verbatim>\<open>kill()\<close> has
  returned: on a running session the record read back after the call differs from the one
  before it.
\<close>

theorem stopProcess_sets_isRunning_counterexample:
  "map_of (sessions demo_server) ''s1'' = Some demo_session
   \<and> isRunning demo_session
   \<and> fst (stopProcess kill_ok ''s1'' demo_server) = Returns Killed
   \<and> map_of (sessions (snd (stopProcess kill_ok ''s1'' demo_server))) ''s1''
       = Some (demo_session\<lparr>isRunning := False\<rparr>)
   \<and> demo_session\<lparr>isRunning := False\<rparr> \<noteq> demo_session"
  by (simp add: stopProcess_def demo_server_def kill_ok_def demo_session_def)

text \<open>
  Claim C3, as amended. For a registered session whose \<^verbatim>\<open>kill()\<close> returns,
  \<^verbatim>\<open>stopProcess\<close> makes the kill call, returns \<^verbatim>\<open>{ok:true, killed:true}\<close>, deletes and
  adds no record, and changes of the session only \<^verbatim>\<open>isRunning\<close>, which it sets to false
  at once; \<^verbatim>\<open>exitCode\<close>, \<^verbatim>\<open>exitSignal\<close> and the output stay as they were and are
  written only by the exit callback, when it runs afterwards.
\<close>

theorem stopProcess_kill_returns:
  assumes "map_of (sessions st) sessionId = Some s" and "pty_kill (pty s) = None"
  shows "fst (stopProcess pty_kill sessionId st) = Returns Killed
       \<and> pty_calls (snd (stopProcess pty_kill sessionId st)) = pty_calls st @ [Kill (pty s)]
       \<and> map_of (sessions (snd (stopProcess pty_kill sessionId st)))
            = (map_of (sessions st))(sessionId \<mapsto> s\<lparr>isRunning := False\<rparr>)
       \<and> map fst (sessions (snd (stopProcess pty_kill sessionId st))) = map fst (sessions st)
       \<and> map_of (sessions (onExit sessionId code signal now (snd (stopProcess pty_kill sessionId st))))
            sessionId
           = Some (s\<lparr>isRunning := False, exitCode := Some code, exitSignal := signal,
                     outputBuffer := outputBuffer s @ [ExitMarker code signal now]\<rparr>)"
proof -
  have k: "sessionId \<in> fst ` set (sessions st)"
    using assms(1) by (metis domI dom_map_of_conv_image_fst)
  show ?thesis
    using assms k by (simp add: stopProcess_def onExit_def update_conv' update_keys)
qed

theorem stopProcess_kill_returns_witness:
  "map_of (sessions demo_server) ''s1'' = Some demo_session
   \<and> kill_ok (pty demo_session) = None
   \<and> fst (stopProcess kill_ok ''s1'' demo_server) = Returns Killed
   \<and> pty_calls (snd (stopProcess kill_ok ''s1'' demo_server)) = [Kill (Pty 4242)]
   \<and> map_of (sessions (snd (stopProcess kill_ok ''s1'' demo_server))) ''s1''
        = Some (demo_session\<lparr>isRunning := False\<rparr>)
   \<and> map fst (sessions (snd (stopProcess kill_ok ''s1'' demo_server))) = [''s1'']"
proof -
  have h1: "map_of (sessions demo_server) ''s1'' = Some demo_session"
    by (simp add: demo_server_def)
  have h2: "kill_ok (pty demo_session) = None"
    by (simp add: kill_ok_def)
  from stopProcess_kill_returns [where st = demo_server and sessionId = "''s1''"
      and s = demo_session and pty_kill = kill_ok, OF h1 h2] h1 h2
  show ?thesis by (simp add: demo_server_def demo_session_def)
qed

section \<open>The lifecycle invariant over runs\<close>

lemma cleanup_loop_submap:
  "map_of (fst (cleanup_loop es (m, n))) k = Some s \<Longrightarrow> map_of m k = Some s"
proof (induction es arbitrary: m n)
  case Nil
  then show ?case by simp
next
  case (Cons e es)
  obtain sid s' where e: "e = (sid, s')" by (cases e)
  show ?case
  proof (cases "isRunning s'")
    case True
    with Cons e show ?thesis by simp
  next
    case False
    with Cons.prems e have "map_of (fst (cleanup_loop es (AList.delete sid m, n + 1))) k = Some s"
      by simp
    then have "map_of (AList.delete sid m) k = Some s" by (rule Cons.IH)
    then show ?thesis by (simp add: delete_conv' split: if_splits)
  qed
qed

lemma exit_inv_startProcess: "exit_inv st \<Longrightarrow> exit_inv (snd (startProcess h f u n a st))"
  by (auto simp: exit_inv_def startProcess_def Let_def update_conv' split: sum.splits if_splits)

lemma exit_inv_onData: "exit_inv st \<Longrightarrow> exit_inv (onData sid d n st)"
  by (auto simp: exit_inv_def onData_def Let_def update_conv' split: option.splits if_splits)

lemma exit_inv_onExit: "exit_inv st \<Longrightarrow> exit_inv (onExit sid c sg n st)"
  by (auto simp: exit_inv_def onExit_def Let_def update_conv' split: option.splits if_splits)

lemma exit_inv_fire: "exit_inv st \<Longrightarrow> exit_inv (fire sid st cb)"
  by (cases cb) (simp_all add: exit_inv_onData exit_inv_onExit)

lemma exit_inv_writeInput: "exit_inv st \<Longrightarrow> exit_inv (snd (writeInput w sid d st))"
  by (auto simp: exit_inv_def writeInput_def Let_def split: option.splits)

lemma exit_inv_stopProcess: "exit_inv st \<Longrightarrow> exit_inv (snd (stopProcess k sid st))"
  by (auto simp: exit_inv_def stopProcess_def Let_def update_conv' split: option.splits if_splits)

lemma exit_inv_cleanupSessions: "exit_inv st \<Longrightarrow> exit_inv (snd (cleanupSessions x st))"
proof -
  assume inv: "exit_inv st"
  show ?thesis
  proof (cases "truthy x")
    case True
    with inv show ?thesis
      by (auto simp: exit_inv_def cleanupSessions_def delete_conv' split: option.splits if_splits)
  next
    case False
    obtain m c where mc: "cleanup_loop (sessions st) (sessions st, 0) = (m, c)"
      by (cases "cleanup_loop (sessions st) (sessions st, 0)")
    have "\<And>k s. map_of m k = Some s \<Longrightarrow> map_of (sessions st) k = Some s"
      using cleanup_loop_submap [of "sessions st" "sessions st" 0] mc by simp
    with inv False mc show ?thesis
      by (auto simp: exit_inv_def cleanupSessions_def)
  qed
qed

lemma exit_inv_step: "exit_inv st \<Longrightarrow> exit_inv (step st c)"
  by (cases c) (simp_all add: exit_inv_startProcess exit_inv_fire exit_inv_writeInput
      exit_inv_stopProcess exit_inv_cleanupSessions)

lemma exit_inv_run: "exit_inv (run cs)"
  unfolding run_def
proof (induction cs rule: rev_induct)
  case Nil
  show ?case by (simp add: exit_inv_def init_def)
next
  case (snoc c cs)
  then show ?case by (simp add: exit_inv_step)
qed

lemma run_start: "run [StartProcess demo_host spawn_ok ''s1'' ''t0'' demo_args] = demo_server"
  by (simp add: run_def init_def startProcess_def spawn_ok_def spawn_call_of_def demo_host_def
      demo_args_def demo_server_def demo_session_def Let_def)

text \<open>
  Claim C2. The claim leaves a session two states: running with no exit field, or not
  running with the exit fields set. After \<^verbatim>\<open>startProcess\<close> and a \<^verbatim>\<open>stopProcess\<close> whose
  \<^verbatim>\<open>kill()\<close> returns, the registered session is in a third one: \<^verbatim>\<open>isRunning\<close> is false
  and \<^verbatim>\<open>exitCode\<close> and \<^verbatim>\<open>exitSignal\<close> are both still \<^verbatim>\<open>null\<close>.
\<close>

theorem stopProcess_unset_exit_fields_counterexample:
  "map_of (sessions (run [StartProcess demo_host spawn_ok ''s1'' ''t0'' demo_args,
                          StopProcess kill_ok ''s1''])) ''s1''
     = Some (demo_session\<lparr>isRunning := False\<rparr>)
   \<and> \<not> isRunning (demo_session\<lparr>isRunning := False\<rparr>)
   \<and> exitCode (demo_session\<lparr>isRunning := False\<rparr>) = None
   \<and> exitSignal (demo_session\<lparr>isRunning := False\<rparr>) = None"
proof -
  have "run [StartProcess demo_host spawn_ok ''s1'' ''t0'' demo_args, StopProcess kill_ok ''s1'']
      = snd (stopProcess kill_ok ''s1'' demo_server)"
    using run_start by (simp add: run_def)
  then show ?thesis
    by (simp add: stopProcess_def demo_server_def kill_ok_def demo_session_def)
qed

text \<open>
  Claim C2, as amended. In every state the server reaches from the empty registry, by any
  sequence of tool calls and PTY callbacks, a registered session that is marked running
  has \<^verbatim>\<open>exitCode\<close> and \<^verbatim>\<open>exitSignal\<close> both unset, and a session with an exit field set
  is marked not running. The converse is not promised: \<^verbatim>\<open>stopProcess\<close> marks a session
  not running before the exit callback has recorded any exit field.
\<close>

theorem running_session_has_no_exit_fields:
  assumes "map_of (sessions (run cs)) sessionId = Some s"
  shows "(isRunning s \<longrightarrow> exitCode s = None \<and> exitSignal s = None)
       \<and> (exitCode s \<noteq> None \<longrightarrow> \<not> isRunning s)
       \<and> (exitSignal s \<noteq> None \<longrightarrow> \<not> isRunning s)"
  using exit_inv_run [of cs] assms unfolding exit_inv_def by auto

theorem running_session_has_no_exit_fields_witness:
  "map_of (sessions (run [StartProcess demo_host spawn_ok ''s1'' ''t0'' demo_args])) ''s1''
     = Some demo_session
   \<and> isRunning demo_session \<and> exitCode demo_session = None \<and> exitSignal demo_session = None"
proof -
  have h: "map_of (sessions (run [StartProcess demo_host spawn_ok ''s1'' ''t0'' demo_args])) ''s1''
      = Some demo_session"
    by (simp add: run_start demo_server_def)
  have r: "isRunning demo_session" by (simp add: demo_session_def)
  from running_session_has_no_exit_fields [OF h] h r show ?thesis by simp
qed

section \<open>Reading the output\<close>




section \<open>Cleanup by id\<close>

text \<open>
  Claim C8. The claim has an unknown id fail with NotFound. The handler tests
  \<^verbatim>\<open>if (sessionId)\<close>, and the empty string is falsy: with the id \<^verbatim>\<open>""\<close>, which names no
  session, the call takes the clean-all branch, removes the finished session and returns
  \<^verbatim>\<open>{ok:true, cleaned:1}\<close>.
\<close>

theorem cleanupSessions_empty_id_counterexample:
  "map_of (sessions finished_server) [] = None
   \<and> cleanupSessions (Some []) finished_server
       = (Returns (Cleaned 1), finished_server\<lparr>sessions := []\<rparr>)"
  by (simp add: cleanupSessions_def truthy_def finished_server_def)

text \<open>
  Claim C8, as amended. For a non-empty id (every id the server issues is a UUID):
  when no session is registered under it, the call fails with "Session not found" and
  changes nothing; when one is, the call fails with "Session is still running" if and
  only if \<^verbatim>\<open>isRunning\<close> is true, and then changes nothing, and it returns
  \<^verbatim>\<open>{ok:true, cleaned:1}\<close> if and only if \<^verbatim>\<open>isRunning\<close> is false, and then removes that
  entry and no other.
\<close>

theorem cleanupSessions_by_id:
  assumes "sessionId \<noteq> []"
  shows "(case map_of (sessions st) sessionId of
           None \<Rightarrow> cleanupSessions (Some sessionId) st = (Returns (Failure ''Session not found''), st)
         | Some s \<Rightarrow>
             (fst (cleanupSessions (Some sessionId) st) = Returns (Failure ''Session is still running'')
                \<longleftrightarrow> isRunning s)
           \<and> (fst (cleanupSessions (Some sessionId) st) = Returns (Cleaned 1) \<longleftrightarrow> \<not> isRunning s)
           \<and> (isRunning s \<longrightarrow> snd (cleanupSessions (Some sessionId) st) = st)
           \<and> (\<not> isRunning s \<longrightarrow>
                 sessions (snd (cleanupSessions (Some sessionId) st))
                   = filter (\<lambda>(k, v). sessionId \<noteq> k) (sessions st)
               \<and> map_of (sessions (snd (cleanupSessions (Some sessionId) st)))
                   = (map_of (sessions st))(sessionId := None)
               \<and> pty_calls (snd (cleanupSessions (Some sessionId) st)) = pty_calls st))"
proof -
  have d: "AList.delete sessionId (sessions st) = filter (\<lambda>(k, v). sessionId \<noteq> k) (sessions st)"
    by (simp add: AList.delete_eq)
  have m: "map_of (AList.delete sessionId (sessions st)) = (map_of (sessions st))(sessionId := None)"
    by (rule delete_conv')
  show ?thesis
    using assms d m
    by (auto simp: cleanupSessions_def truthy_def split: option.splits)
qed

theorem cleanupSessions_by_id_witness:
  "cleanupSessions (Some ''s1'') demo_server = (Returns (Failure ''Session is still running''), demo_server)
   \<and> fst (cleanupSessions (Some ''s1'') finished_server) = Returns (Cleaned 1)
   \<and> sessions (snd (cleanupSessions (Some ''s1'') finished_server)) = []
   \<and> cleanupSessions (Some ''zz'') finished_server
       = (Returns (Failure ''Session not found''), finished_server)"
proof -
  have n1: "''s1'' \<noteq> []" and n2: "''zz'' \<noteq> []" by simp_all
  from cleanupSessions_by_id [OF n1, of demo_server] cleanupSessions_by_id [OF n1, of finished_server]
    cleanupSessions_by_id [OF n2, of finished_server]
  show ?thesis
    by (simp add: demo_server_def finished_server_def demo_session_def prod_eq_iff)
qed

section \<open>Callbacks on one session\<close>

lemma fire_all_Cons: "fire_all sid (cb # cbs) st = fire_all sid cbs (fire sid st cb)"
  by (simp add: fire_all_def)


lemma fire_registered:
  assumes "map_of (sessions st) sid = Some s"
  shows "map_of (sessions (fire sid st cb)) sid
    = Some (case cb of
        Data d now \<Rightarrow> s\<lparr>outputBuffer :=
          (if length (outputBuffer s) + 1 > maxBufferSize then tl (outputBuffer s @ [Stdout d now])
           else outputBuffer s @ [Stdout d now])\<rparr>
      | Exited code signal now \<Rightarrow>
          s\<lparr>isRunning := False, exitCode := Some code, exitSignal := signal,
            outputBuffer := outputBuffer s @ [ExitMarker code signal now]\<rparr>)"
  using assms by (cases cb) (simp_all add: onData_def onExit_def Let_def update_conv')





lemma fire_all_same_data:
  assumes "map_of (sessions st) sid = Some s"
    and "outputBuffer s = replicate k (Stdout d now)" and "k \<le> maxBufferSize"
  shows "\<exists>s'. map_of (sessions (fire_all sid (replicate n (Data d now)) st)) sid = Some s'
            \<and> outputBuffer s' = replicate (min (k + n) maxBufferSize) (Stdout d now)"
  using assms
proof (induction n arbitrary: st s k)
  case 0
  then show ?case by (simp add: fire_all_def)
next
  case (Suc n)
  let ?k1 = "min (Suc k) maxBufferSize"
  from fire_registered [OF Suc.prems(1), of "Data d now"] Suc.prems(2,3) obtain s1 where
    s1: "map_of (sessions (fire sid st (Data d now))) sid = Some s1"
    and b1: "outputBuffer s1 = replicate ?k1 (Stdout d now)"
    by (auto simp: replicate_append_same min_def)
  have "?k1 \<le> maxBufferSize" by simp
  from Suc.IH [OF s1 b1 this] obtain s' where
    "map_of (sessions (fire_all sid (replicate n (Data d now)) (fire sid st (Data d now)))) sid = Some s'"
    "outputBuffer s' = replicate (min (?k1 + n) maxBufferSize) (Stdout d now)" by blast
  moreover have "min (?k1 + n) maxBufferSize = min (k + Suc n) maxBufferSize" by simp
  ultimately show ?case by (simp add: fire_all_Cons)
qed

text \<open>
  Claim C4. The data callback shifts the oldest element out when a push takes the array
  past \<open>maxBufferSize\<close>; the exit callback pushes its marker with no such check. A fresh
  session that has received \<open>maxBufferSize\<close> chunks holds that many events, and the exit
  marker then makes the array one longer than the bound.
\<close>

theorem onExit_exceeds_maxBufferSize:
  "length (captured ''s1'' (fire_all ''s1'' (replicate 10000 (Data ''x'' ''t1'')) demo_server))
     = maxBufferSize
   \<and> length (captured ''s1''
        (onExit ''s1'' 0 (Some 0) ''t2''
           (fire_all ''s1'' (replicate 10000 (Data ''x'' ''t1'')) demo_server)))
     = maxBufferSize + 1"
proof -
  have h: "map_of (sessions demo_server) ''s1'' = Some demo_session"
    by (simp add: demo_server_def)
  have b: "outputBuffer demo_session = replicate 0 (Stdout ''x'' ''t1'')"
    by (simp add: demo_session_def)
  from fire_all_same_data [OF h b, of 10000] obtain s1 where
    s1: "map_of (sessions (fire_all ''s1'' (replicate 10000 (Data ''x'' ''t1'')) demo_server)) ''s1'' = Some s1"
    and b1: "outputBuffer s1 = replicate 10000 (Stdout ''x'' ''t1'')"
    by (auto simp: maxBufferSize_def)
  from s1 b1 show ?thesis
    by (simp add: captured_def onExit_def update_conv' maxBufferSize_def)
qed




section \<open>Wait-mode start: exit or deadline\<close>









end
